theory Spec2Isabelle
  imports Complex_Main "HOL-Library.Sublist"
begin

section \<open>Data model of \<open>app2.py\<close>\<close>

text \<open>
  The exceptions the modelled code can meet. The first four are caught by the
  \<open>except\<close> clauses of the two fetchers; \<open>IndexError\<close> and \<open>ValueError\<close> are what
  pandas raises in \<open>create_currency_chart\<close>, and \<open>OverflowError\<close> is what the date
  arithmetic of \<open>get_historical_rates\<close> raises, outside its \<open>try\<close>.
\<close>

datatype py_error =
    RequestException
  | JSONDecodeError
  | KeyError
  | TypeError
  | IndexError
  | ValueError
  | OverflowError

text \<open>
  A parsed JSON document, as \<open>response.json()\<close> returns it. A number is a real (the
  arithmetic of the program is modelled exactly, not in IEEE doubles); an object is the
  association list of the parsed dict. \<open>JNull\<close> is Python's \<open>None\<close>.
\<close>

datatype json =
    JNull
  | JBool bool
  | JNum real
  | JStr string
  | JArr "json list"
  | JObj "(string \<times> json) list"

text \<open>
  \<open>requests.get(url)\<close> either raises (no connection) or returns a response with a
  status code and a body; the body is \<open>None\<close> when \<open>response.json()\<close> cannot parse it.
\<close>

record response =
  status_code :: int
  body :: "json option"

datatype http_result = ConnectionFailed | Responded response

text \<open>
  The data source: what the \<open>n\<close>-th request of a run (counted from 0) answers for a
  URL. The index lets the source answer differently over time.
\<close>

type_synonym network = "nat \<Rightarrow> string \<Rightarrow> http_result"

section \<open>Helpers of the Python runtime\<close>

text \<open>\<open>str.lower()\<close> on ASCII text.\<close>

definition lower_char :: "char \<Rightarrow> char" where
  "lower_char c =
     (case map_of (zip ''ABCDEFGHIJKLMNOPQRSTUVWXYZ'' ''abcdefghijklmnopqrstuvwxyz'') c of
        None \<Rightarrow> c
      | Some l \<Rightarrow> l)"

definition lower :: "string \<Rightarrow> string" where
  "lower s = map lower_char s"

text \<open>\<open>data[key]\<close> with a string key: only a dict holding the key answers.\<close>

fun subscript :: "json \<Rightarrow> string \<Rightarrow> py_error + json" where
  "subscript (JObj kvs) k = (case map_of kvs k of None \<Rightarrow> Inl KeyError | Some v \<Rightarrow> Inr v)"
| "subscript _ k = Inl TypeError"

text \<open>\<open>response.json()\<close>.\<close>

definition response_json :: "response \<Rightarrow> py_error + json" where
  "response_json r = (case body r of None \<Rightarrow> Inl JSONDecodeError | Some d \<Rightarrow> Inr d)"

text \<open>
  \<open>requests.get(url)\<close>: the request is appended to the list of requests issued, whether
  it succeeds or raises.
\<close>

definition requests_get :: "network \<Rightarrow> string \<Rightarrow> string list \<Rightarrow> (py_error + response) \<times> string list" where
  "requests_get net url issued =
     ((case net (length issued) url of
         ConnectionFailed \<Rightarrow> Inl RequestException
       | Responded r \<Rightarrow> Inr r),
      issued @ [url])"

text \<open>
  Lines 23-24 and 47-48: \<open>data = response.json()\<close> and
  \<open>data[from_currency.lower()][to_currency.lower()]\<close>.
\<close>

definition extract_rate :: "response \<Rightarrow> string \<Rightarrow> string \<Rightarrow> py_error + json" where
  "extract_rate r from_currency to_currency =
     (case response_json r of
        Inl e \<Rightarrow> Inl e
      | Inr data \<Rightarrow>
          (case subscript data (lower from_currency) of
             Inl e \<Rightarrow> Inl e
           | Inr inner \<Rightarrow> subscript inner (lower to_currency)))"

section \<open>\<open>get_exchange_rate\<close>\<close>

definition primary_url :: "string \<Rightarrow> string" where
  "primary_url from_currency =
     ''https://cdn.jsdelivr.net/npm/@fawazahmed0/currency-api@latest/v1/currencies/''
       @ lower from_currency @ ''.json''"

definition fallback_url :: "string \<Rightarrow> string" where
  "fallback_url from_currency =
     ''https://latest.currency-api.pages.dev/v1/currencies/'' @ lower from_currency @ ''.json''"

text \<open>
  The body of the \<open>try\<close> of \<open>get_exchange_rate\<close>: the primary request, the fallback
  request when the primary's status is not 200, then the extraction from whichever
  response is current. The status of the fallback's response is not looked at.
\<close>

definition get_exchange_rate_try :: "network \<Rightarrow> string \<Rightarrow> string \<Rightarrow> string list \<Rightarrow> (py_error + json) \<times> string list" where
  "get_exchange_rate_try net from_currency to_currency issued =
     (case requests_get net (primary_url from_currency) issued of
        (Inl e, issued1) \<Rightarrow> (Inl e, issued1)
      | (Inr r1, issued1) \<Rightarrow>
          (case (if status_code r1 \<noteq> 200
                 then requests_get net (fallback_url from_currency) issued1
                 else (Inr r1, issued1)) of
             (Inl e, issued2) \<Rightarrow> (Inl e, issued2)
           | (Inr r, issued2) \<Rightarrow> (extract_rate r from_currency to_currency, issued2)))"

text \<open>
  \<open>get_exchange_rate\<close>: any exception of the body gives \<open>None\<close> (after a message on the
  page, which is not modelled). The second component is the list of requests issued.
\<close>

definition get_exchange_rate :: "network \<Rightarrow> string \<Rightarrow> string \<Rightarrow> string list \<Rightarrow> json \<times> string list" where
  "get_exchange_rate net from_currency to_currency issued =
     (case get_exchange_rate_try net from_currency to_currency issued of
        (Inl e, issued') \<Rightarrow> (JNull, issued')
      | (Inr current_rate, issued') \<Rightarrow> (current_rate, issued'))"

section \<open>\<open>get_historical_rates\<close>\<close>

definition historical_url :: "string \<Rightarrow> string \<Rightarrow> string" where
  "historical_url date from_currency =
     ''https://cdn.jsdelivr.net/npm/@fawazahmed0/currency-api@'' @ date
       @ ''/v1/currencies/'' @ lower from_currency @ ''.json''"

definition historical_fallback_url :: "string \<Rightarrow> string \<Rightarrow> string" where
  "historical_fallback_url date from_currency =
     ''https://'' @ date @ ''.currency-api.pages.dev/v1/currencies/''
       @ lower from_currency @ ''.json''"

record hist_state =
  rates :: "json list"
  dates :: "string list"
  requests :: "string list"

text \<open>
  The body of the \<open>try\<close> inside the loop, for the date string \<open>date\<close>. It returns
  the exception raised, if any, with the state reached: an exception leaves the two
  lists as they were, and the requests already issued stay issued.
\<close>

definition historical_try :: "network \<Rightarrow> string \<Rightarrow> string \<Rightarrow> string \<Rightarrow> hist_state \<Rightarrow> py_error option \<times> hist_state" where
  "historical_try net date from_currency to_currency s =
     (case requests_get net (historical_url date from_currency) (requests s) of
        (Inl e, issued1) \<Rightarrow> (Some e, s\<lparr>requests := issued1\<rparr>)
      | (Inr r1, issued1) \<Rightarrow>
          (case (if status_code r1 \<noteq> 200
                 then requests_get net (historical_fallback_url date from_currency) issued1
                 else (Inr r1, issued1)) of
             (Inl e, issued2) \<Rightarrow> (Some e, s\<lparr>requests := issued2\<rparr>)
           | (Inr r, issued2) \<Rightarrow>
               (if status_code r = 200
                then (case extract_rate r from_currency to_currency of
                        Inl e \<Rightarrow> (Some e, s\<lparr>requests := issued2\<rparr>)
                      | Inr rate \<Rightarrow>
                          (None, s\<lparr>rates := rates s @ [rate], dates := dates s @ [date],
                                    requests := issued2\<rparr>))
                else (None, s\<lparr>requests := issued2\<rparr>))))"

text \<open>
  One iteration of \<open>for i in range(days, 0, -1)\<close>. \<open>now i\<close> is the calendar day (as a
  day number) that \<open>datetime.now()\<close> reads in the iteration with loop variable \<open>i\<close>, and
  \<open>strftime\<close> is the library's \<open>strftime('%Y-%m-%d')\<close> on day numbers. The bare
  \<open>except: continue\<close> drops the exception. The date of line 37 is taken to be in
  range here; \<open>historical_date\<close> below has the check.
\<close>

definition historical_day :: "network \<Rightarrow> (int \<Rightarrow> string) \<Rightarrow> (int \<Rightarrow> int) \<Rightarrow> string \<Rightarrow> string \<Rightarrow> int \<Rightarrow> hist_state \<Rightarrow> hist_state" where
  "historical_day net strftime now from_currency to_currency i s =
     snd (historical_try net (strftime (now i - i)) from_currency to_currency s)"

text \<open>\<open>range(days, 0, -1)\<close>: \<open>days, days - 1, ..., 1\<close>, empty when \<open>days \<le> 0\<close>.\<close>

definition range_down :: "int \<Rightarrow> int list" where
  "range_down days = rev [1..days]"

definition get_historical_rates :: "network \<Rightarrow> (int \<Rightarrow> string) \<Rightarrow> (int \<Rightarrow> int) \<Rightarrow> string \<Rightarrow> string \<Rightarrow> int \<Rightarrow> hist_state" where
  "get_historical_rates net strftime now from_currency to_currency days =
     fold (historical_day net strftime now from_currency to_currency) (range_down days)
       \<lparr>rates = [], dates = [], requests = []\<rparr>"




section \<open>\<open>create_currency_chart\<close>\<close>

text \<open>
  A numpy \<open>float64\<close> result. Finite values are exact reals; dividing by zero gives an
  infinity or a NaN (numpy warns, it does not raise).
\<close>

datatype float64 = Finite real | PosInf | NegInf | NaN

definition np_div :: "real \<Rightarrow> real \<Rightarrow> float64" where
  "np_div a b =
     (if b \<noteq> 0 then Finite (a / b)
      else if 0 < a then PosInf else if a < 0 then NegInf else NaN)"

text \<open>Multiplication by a positive finite constant.\<close>

fun np_scale :: "float64 \<Rightarrow> real \<Rightarrow> float64" where
  "np_scale (Finite x) k = Finite (x * k)"
| "np_scale v k = v"

text \<open>\<open>x > 0\<close>: false for a NaN.\<close>

fun np_positive :: "float64 \<Rightarrow> bool" where
  "np_positive (Finite x) = (0 < x)"
| "np_positive PosInf = True"
| "np_positive _ = False"

text \<open>The annotation's arrow: \<open>Up\<close> is the upwards arrow, \<open>Down\<close> the downwards one.\<close>

datatype direction = Up | Down

text \<open>The quantities \<open>create_currency_chart\<close> computes and puts on the figure.\<close>

record chart =
  percent_change :: "float64 list"
  min_rate :: real
  max_rate :: real
  overall_change :: float64
  direction :: direction
  days_shown :: nat

text \<open>
  \<open>create_currency_chart(dates, rates, ...)\<close> on numeric rates and on date strings
  that \<open>pd.to_datetime\<close> parses (those \<open>get_historical_rates\<close> formats). The
  DataFrame constructor raises \<open>ValueError\<close> on columns of different lengths, and
  \<open>df['rate'].iloc[0]\<close> raises \<open>IndexError\<close> on an empty frame. The traces and the
  styling of the figure are left out.
\<close>

definition create_currency_chart :: "string list \<Rightarrow> real list \<Rightarrow> py_error + chart" where
  "create_currency_chart ds rs =
     (if length ds \<noteq> length rs then Inl ValueError
      else (case rs of
              [] \<Rightarrow> Inl IndexError
            | first_rate # _ \<Rightarrow>
                (let overall = np_scale (np_div (last rs - first_rate) first_rate) 100 in
                 Inr \<lparr>percent_change =
                        map (\<lambda>rate. np_scale (np_div (rate - first_rate) first_rate) 100) rs,
                      min_rate = Min (set rs) * 0.998,
                      max_rate = Max (set rs) * 1.002,
                      overall_change = overall,
                      direction = (if np_positive overall then Up else Down),
                      days_shown = length rs\<rparr>)))"

section \<open>The chart's arithmetic in IEEE doubles\<close>

text \<open>
  pandas and numpy compute lines 145 and 250 in binary64: every operation gives the
  exact result rounded to the nearest double, ties to the even significand.
  \<open>round_even\<close> rounds a real to the nearest integer, ties to even.
\<close>

definition round_even :: "real \<Rightarrow> int" where
  "round_even q =
     (let n = \<lfloor>q\<rfloor>; r = q - of_int n
      in if r < 1 / 2 then n else if 1 / 2 < r then n + 1 else if even n then n else n + 1)"

text \<open>
  The binade of \<open>x\<close>: the exponent \<open>e\<close> with \<open>2^e \<le> |x| < 2^(e+1)\<close>, kept at
  \<open>-1022\<close> for subnormals and zero, and \<open>1024\<close> beyond the largest binade.
\<close>

definition binade :: "real \<Rightarrow> int" where
  "binade x =
     (case find (\<lambda>e. \<bar>x\<bar> < 2 powi (e + 1)) [- 1022..1023] of Some e \<Rightarrow> e | None \<Rightarrow> 1024)"

text \<open>
  The nearest value with a 53-bit significand in the binade of \<open>x\<close>. For a decimal
  literal it is the double that the JSON parser returns.
\<close>

definition round64 :: "real \<Rightarrow> real" where
  "round64 x = (let ulp = 2 powi (binade x - 52) in of_int (round_even (x / ulp)) * ulp)"

text \<open>A rounded result of magnitude \<open>2^1024\<close> or more is an infinity.\<close>

definition f64_overflow :: real where
  "f64_overflow = 2 ^ 1024"

definition fl :: "real \<Rightarrow> float64" where
  "fl x =
     (let y = round64 x
      in if f64_overflow \<le> y then PosInf
         else if y \<le> - f64_overflow then NegInf else Finite y)"

text \<open>
  Division and the multiplication by 100, on doubles. A zero divisor gives an infinity
  or a NaN, as in \<open>np_div\<close>.
\<close>

fun f64_div :: "float64 \<Rightarrow> real \<Rightarrow> float64" where
  "f64_div (Finite a) b =
     (if b \<noteq> 0 then fl (a / b)
      else if 0 < a then PosInf else if a < 0 then NegInf else NaN)"
| "f64_div PosInf b = (if 0 \<le> b then PosInf else NegInf)"
| "f64_div NegInf b = (if 0 \<le> b then NegInf else PosInf)"
| "f64_div NaN b = NaN"

fun f64_times100 :: "float64 \<Rightarrow> float64" where
  "f64_times100 (Finite a) = fl (a * 100)"
| "f64_times100 v = v"

text \<open>Lines 144-145, 250 and 251 in doubles, on rates that are doubles.\<close>

definition percent_change_f64 :: "real list \<Rightarrow> py_error + float64 list" where
  "percent_change_f64 rs =
     (case rs of
        [] \<Rightarrow> Inl IndexError
      | first_rate # _ \<Rightarrow>
          Inr (map (\<lambda>rate. f64_times100 (f64_div (fl (rate - first_rate)) first_rate)) rs))"

definition overall_change_f64 :: "real list \<Rightarrow> py_error + float64" where
  "overall_change_f64 rs =
     (case rs of
        [] \<Rightarrow> Inl IndexError
      | first_rate # _ \<Rightarrow> Inr (f64_times100 (f64_div (fl (last rs - first_rate)) first_rate)))"

definition direction_f64 :: "real list \<Rightarrow> py_error + direction" where
  "direction_f64 rs =
     (case overall_change_f64 rs of
        Inl e \<Rightarrow> Inl e
      | Inr overall \<Rightarrow> Inr (if np_positive overall then Up else Down))"

section \<open>The chart section of \<open>main\<close>\<close>

datatype page = Plotted chart | Error_shown string | Raised py_error

text \<open>
  Lines 402-412 of \<open>main\<close>: the chart is built only when both lists are non-empty;
  otherwise the page shows the message.
\<close>

definition main_chart :: "string list \<Rightarrow> real list \<Rightarrow> page" where
  "main_chart ds rs =
     (if ds \<noteq> [] \<and> rs \<noteq> []
      then (case create_currency_chart ds rs of Inl e \<Rightarrow> Raised e | Inr fig \<Rightarrow> Plotted fig)
      else Error_shown ''Could not retrieve sufficient historical data for chart'')"

section \<open>Notions used to state the properties\<close>

text \<open>
  The host and the path of an \<open>https\<close> URL: the text between the scheme and the first
  slash, and the text from that slash on.
\<close>

definition url_host :: "string \<Rightarrow> string" where
  "url_host u = takeWhile (\<lambda>c. c \<noteq> CHR ''/'') (drop (length ''https://'') u)"

definition url_path :: "string \<Rightarrow> string" where
  "url_path u = dropWhile (\<lambda>c. c \<noteq> CHR ''/'') (drop (length ''https://'') u)"


text \<open>
  \<open>rate\<close> was fetched for the date string \<open>date\<close>: some request to the primary or to
  the fallback URL of that date was answered with status 200 and a body holding
  \<open>rate\<close> for the pair.
\<close>

definition fetched :: "network \<Rightarrow> string \<Rightarrow> string \<Rightarrow> string \<Rightarrow> json \<Rightarrow> bool" where
  "fetched net from_currency to_currency date rate =
     (\<exists>n r. (net n (historical_url date from_currency) = Responded r
              \<or> net n (historical_fallback_url date from_currency) = Responded r)
            \<and> status_code r = 200
            \<and> extract_rate r from_currency to_currency = Inr rate)"

text \<open>The requests one day of the window may issue: the primary alone, or both.\<close>

definition day_requests :: "string \<Rightarrow> string \<Rightarrow> string list \<Rightarrow> bool" where
  "day_requests from_currency date rq =
     (rq = [historical_url date from_currency]
      \<or> rq = [historical_url date from_currency, historical_fallback_url date from_currency])"




section \<open>Sample data sources\<close>

text \<open>A body quoting one rate for USD/EUR.\<close>

definition usd_eur_body :: "real \<Rightarrow> json" where
  "usd_eur_body x = JObj [(''usd'', JObj [(''eur'', JNum x)])]"

text \<open>A source that answers every request with status 200 and the rate \<open>x\<close>.\<close>

definition steady_source :: "real \<Rightarrow> network" where
  "steady_source x n url = Responded \<lparr>status_code = 200, body = Some (usd_eur_body x)\<rparr>"


text \<open>
  A source whose first answer is a 500 without a body and whose later answers carry
  the rate 0.9 under the status 203.
\<close>

definition stale_mirror :: network where
  "stale_mirror n url =
     (if n = 0 then Responded \<lparr>status_code = 500, body = None\<rparr>
      else Responded \<lparr>status_code = 203, body = Some (usd_eur_body 0.9)\<rparr>)"

text \<open>
  A source that has no data for the second request of a run: it answers 404 to it and
  to the fallback request that follows, and 200 with the rate 0.9 otherwise.
\<close>

definition gappy_source :: network where
  "gappy_source n url =
     (if n = 1 \<or> n = 2 then Responded \<lparr>status_code = 404, body = None\<rparr>
      else Responded \<lparr>status_code = 200, body = Some (usd_eur_body 0.9)\<rparr>)"

text \<open>\<open>strftime('%Y-%m-%d')\<close> on the days 1 to 9 of November 2026, numbered 1 to 9.\<close>

definition november :: "int \<Rightarrow> string" where
  "november d = ''2026-11-0'' @ [''0123456789'' ! nat d]"

text \<open>A clock that reads day 4 throughout a run.\<close>

definition fourth :: "int \<Rightarrow> int" where
  "fourth i = 4"



section \<open>The chart's derived quantities\<close>

lemma create_currency_chart_nonempty:
  assumes "rs \<noteq> []" and "length ds = length rs"
  shows "create_currency_chart ds rs =
     Inr \<lparr>percent_change = map (\<lambda>rate. np_scale (np_div (rate - rs ! 0) (rs ! 0)) 100) rs,
          min_rate = Min (set rs) * 0.998,
          max_rate = Max (set rs) * 1.002,
          overall_change = np_scale (np_div (last rs - rs ! 0) (rs ! 0)) 100,
          direction =
            (if np_positive (np_scale (np_div (last rs - rs ! 0) (rs ! 0)) 100) then Up else Down),
          days_shown = length rs\<rparr>"
  using assms by (cases rs) (simp_all add: create_currency_chart_def Let_def)

text \<open>
  Called on an empty series, \<open>create_currency_chart\<close> itself raises \<open>IndexError\<close> at
  \<open>df['rate'].iloc[0]\<close>; \<open>main\<close> never calls it so.
\<close>

lemma create_currency_chart_empty: "create_currency_chart [] [] = Inl IndexError"
  by (simp add: create_currency_chart_def)

text \<open>
  C1. On the empty series (no dates, no rates) the chart section of \<open>main\<close> ends in the
  insufficient-data message, and for no input does it end in an \<open>IndexError\<close> from the
  absent first point: the guard of \<open>main\<close> keeps the empty series away from
  \<open>create_currency_chart\<close>. (The model has no arithmetic exception: numpy's division by
  zero gives an infinity or a NaN.)
\<close>

theorem empty_series_insufficient_data:
  "main_chart [] [] = Error_shown ''Could not retrieve sufficient historical data for chart''
   \<and> (\<forall>ds rs. main_chart ds rs \<noteq> Raised IndexError)"
proof -
  have "main_chart ds rs \<noteq> Raised IndexError" for ds rs
  proof (cases "ds \<noteq> [] \<and> rs \<noteq> []")
    case True
    then show ?thesis
      by (cases rs) (simp_all add: main_chart_def create_currency_chart_def Let_def)
  next
    case False
    then show ?thesis by (auto simp add: main_chart_def)
  qed
  moreover have "main_chart [] [] =
      Error_shown ''Could not retrieve sufficient historical data for chart''"
    by (simp add: main_chart_def)
  ultimately show ?thesis by blast
qed

subsection \<open>Percent change in doubles\<close>

lemma find_upto_first:
  fixes lo hi e :: int
  assumes "lo \<le> e" "e \<le> hi" "P e" "\<And>j. lo \<le> j \<Longrightarrow> j < e \<Longrightarrow> \<not> P j"
  shows "find P [lo..hi] = Some e"
proof -
  let ?k = "nat (e - lo)"
  have k: "?k < length [lo..hi]" using assms(1,2) by simp
  have nth: "[lo..hi] ! j = lo + int j" if "j \<le> ?k" for j
    using that assms(1,2) by (simp add: nth_upto)
  have c: "\<forall>j<?k. \<not> P ([lo..hi] ! j)"
  proof (intro allI impI)
    fix j assume "j < ?k"
    then have "[lo..hi] ! j = lo + int j" "lo + int j < e" using nth [of j] by simp_all
    then show "\<not> P ([lo..hi] ! j)" using assms(4) [of "lo + int j"] by simp
  qed
  have b: "e = [lo..hi] ! ?k"
    using nth [of ?k] assms(1) by simp
  have a: "P ([lo..hi] ! ?k)"
    using b assms(3) by simp
  show ?thesis
    unfolding find_Some_iff
  proof (intro exI conjI)
    show "?k < length [lo..hi]" by (fact k)
    show "P ([lo..hi] ! ?k)" by (fact a)
    show "e = [lo..hi] ! ?k" by (fact b)
    show "\<forall>j<?k. \<not> P ([lo..hi] ! j)" by (fact c)
  qed
qed

lemma binade_eq:
  assumes "- 1022 \<le> e" "e \<le> 1023" "2 powi e \<le> \<bar>x\<bar>" "\<bar>x\<bar> < 2 powi (e + 1)"
  shows "binade x = e"
proof -
  have "\<not> \<bar>x\<bar> < 2 powi (j + 1)" if "j < e" for j
  proof -
    have "(2::real) powi (j + 1) \<le> 2 powi e"
      using that by (intro power_int_increasing) simp_all
    with assms(3) show ?thesis by simp
  qed
  with assms(1,2,4) have "find (\<lambda>e. \<bar>x\<bar> < 2 powi (e + 1)) [- 1022..1023] = Some e"
    by (intro find_upto_first) simp_all
  then show ?thesis by (simp only: binade_def option.case)
qed

lemma fl_normal:
  assumes "- 1022 \<le> e" "e \<le> 1023" "2 powi e \<le> \<bar>x\<bar>" "\<bar>x\<bar> < 2 powi (e + 1)"
    and "y = of_int (round_even (x / 2 powi (e - 52))) * 2 powi (e - 52)"
    and "\<bar>y\<bar> < f64_overflow"
  shows "fl x = Finite y"
proof -
  have "binade x = e" using assms(1-4) by (rule binade_eq)
  then have "round64 x = y" by (simp add: round64_def assms(5) Let_def)
  with assms(6) show ?thesis by (auto simp add: fl_def Let_def)
qed

lemma fl_zero: "fl 0 = Finite 0"
proof -
  have "find (\<lambda>e. \<bar>0::real\<bar> < 2 powi (e + 1)) [- 1022..1023] = Some (- 1022)"
    by (intro find_upto_first) simp_all
  then have "binade 0 = - 1022" by (simp only: binade_def option.case)
  then show ?thesis by (simp add: fl_def round64_def round_even_def f64_overflow_def)
qed

lemma double_11: "round64 1.1 = 4953959590107546 / 2 ^ 52"
proof -
  have "binade 1.1 = 0" by (rule binade_eq) simp_all
  then show ?thesis by (simp add: round64_def round_even_def power_int_minus)
qed

lemma double_099: "round64 (99 / 100) = 8917127262193582 / 2 ^ 53"
proof -
  have "binade (99 / 100) = - 1" by (rule binade_eq) (simp_all add: power_int_minus)
  then show ?thesis by (simp add: round64_def round_even_def power_int_minus)
qed

lemma pc_11: "f64_times100 (f64_div (fl (round64 1.1 - 1)) 1) = Finite (10 + 5 / 2 ^ 49)"
proof -
  have a: "fl (round64 1.1 - 1) = Finite (225179981368525 / 2251799813685248)"
    by (rule fl_normal [where e = "- 4"])
      (simp_all add: double_11 round_even_def power_int_minus f64_overflow_def)
  have b: "fl (225179981368525 / 2251799813685248) = Finite (225179981368525 / 2251799813685248)"
    by (rule fl_normal [where e = "- 4"])
      (simp_all add: round_even_def power_int_minus f64_overflow_def)
  have c: "fl (5629499534213125 / 562949953421312) = Finite (5629499534213125 / 562949953421312)"
    by (rule fl_normal [where e = 3])
      (simp_all add: round_even_def power_int_minus f64_overflow_def)
  show ?thesis using a b c by simp
qed

lemma double_1: "round64 1.0 = 1"
proof -
  have "binade 1.0 = 0" by (rule binade_eq) simp_all
  then show ?thesis by (simp add: round64_def round_even_def power_int_minus)
qed

lemma pc_first: "f64_times100 (f64_div (fl (1 - 1)) 1) = Finite 0"
  by (simp add: fl_zero)

lemma pc_099:
  "f64_times100 (f64_div (fl (round64 0.99 - 1)) 1) = Finite (- 1 - 1 / 2 ^ 50)"
proof -
  have a: "fl (round64 0.99 - 1) = Finite (- (45035996273705 / 4503599627370496))"
    by (rule fl_normal [where e = "- 7"])
      (simp_all add: double_099 round_even_def power_int_minus f64_overflow_def)
  have b: "fl (- (45035996273705 / 4503599627370496))
      = Finite (- (45035996273705 / 4503599627370496))"
    by (rule fl_normal [where e = "- 7"])
      (simp_all add: round_even_def power_int_minus f64_overflow_def)
  have c: "fl (- (1125899906842625 / 1125899906842624))
      = Finite (- (1125899906842625 / 1125899906842624))"
    by (rule fl_normal [where e = 0])
      (simp_all add: round_even_def power_int_minus f64_overflow_def)
  show ?thesis using a b c by simp
qed

lemma example_percent_change:
  "percent_change_f64 [round64 1.0, round64 1.1, round64 0.99] =
     Inr [Finite 0, Finite (10 + 5 / 2 ^ 49), Finite (- 1 - 1 / 2 ^ 50)]"
  unfolding percent_change_f64_def double_1
  using pc_first pc_11 pc_099 by simp

lemma example_overall_change:
  "overall_change_f64 [round64 1.0, round64 1.1, round64 0.99] =
     Inr (Finite (- 1 - 1 / 2 ^ 50))"
  unfolding overall_change_f64_def double_1
  using pc_099 by simp

lemma percent_change_f64_nonempty:
  assumes "rs \<noteq> []"
  shows "percent_change_f64 rs =
      Inr (map (\<lambda>rate. f64_times100 (f64_div (fl (rate - rs ! 0)) (rs ! 0))) rs)"
    and "overall_change_f64 rs =
      Inr (f64_times100 (f64_div (fl (last rs - rs ! 0)) (rs ! 0)))"
  using assms by (cases rs; simp add: percent_change_f64_def overall_change_f64_def)+

text \<open>
  The example of C4 fails in doubles: on the rates \<open>1.0, 1.1, 0.99\<close> the percent
  changes are not \<open>0, 10.0, -1.0\<close> and the overall change is not \<open>-1.0\<close>.
\<close>

theorem percent_change_example_counterexample:
  "percent_change_f64 [round64 1.0, round64 1.1, round64 0.99]
     \<noteq> Inr [Finite 0, Finite 10.0, Finite (- 1.0)]
   \<and> overall_change_f64 [round64 1.0, round64 1.1, round64 0.99] \<noteq> Inr (Finite (- 1.0))"
  unfolding example_percent_change example_overall_change by simp

text \<open>
  C4, amended. For a non-empty series the percent change of point \<open>i\<close> and the overall
  change follow \<open>(rate[i] - rate[0]) / rate[0] * 100\<close> and
  \<open>(rate[last] - rate[0]) / rate[0] * 100\<close> against the first point of the series handed
  in: exactly so in exact arithmetic, and with every operation rounded in the doubles
  the program computes in. On the rates \<open>1.0, 1.1, 0.99\<close> the doubles are
  \<open>0\<close>, \<open>10 + 5/2^49\<close> (printed 10.000000000000009) and \<open>-1 - 1/2^50\<close> (printed
  -1.0000000000000009), within \<open>10^-14\<close> of \<open>0, 10, -1\<close>; the overall change is the
  last of them and the direction is down.
\<close>

theorem percent_change_from_first:
  "(rs \<noteq> [] \<and> length ds = length rs \<longrightarrow>
      (\<exists>fig. create_currency_chart ds rs = Inr fig
         \<and> length (percent_change fig) = length rs
         \<and> (\<forall>i<length rs.
               percent_change fig ! i = np_scale (np_div (rs ! i - rs ! 0) (rs ! 0)) 100)
         \<and> overall_change fig = np_scale (np_div (last rs - rs ! 0) (rs ! 0)) 100
         \<and> (rs ! 0 \<noteq> 0 \<longrightarrow>
               (\<forall>i<length rs.
                  percent_change fig ! i = Finite ((rs ! i - rs ! 0) / rs ! 0 * 100))
             \<and> overall_change fig = Finite ((last rs - rs ! 0) / rs ! 0 * 100))))
   \<and> (rs \<noteq> [] \<longrightarrow>
      (\<exists>pc. percent_change_f64 rs = Inr pc
         \<and> length pc = length rs
         \<and> (\<forall>i<length rs. pc ! i = f64_times100 (f64_div (fl (rs ! i - rs ! 0)) (rs ! 0)))
         \<and> overall_change_f64 rs =
             Inr (f64_times100 (f64_div (fl (last rs - rs ! 0)) (rs ! 0)))))
   \<and> percent_change_f64 [round64 1.0, round64 1.1, round64 0.99] =
        Inr [Finite 0, Finite (10 + 5 / 2 ^ 49), Finite (- 1 - 1 / 2 ^ 50)]
   \<and> overall_change_f64 [round64 1.0, round64 1.1, round64 0.99] =
        Inr (Finite (- 1 - 1 / 2 ^ 50))
   \<and> direction_f64 [round64 1.0, round64 1.1, round64 0.99] = Inr Down
   \<and> \<bar>(10 + 5 / 2 ^ 49) - (10.0::real)\<bar> < 1 / 10 ^ 14
   \<and> \<bar>(- 1 - 1 / 2 ^ 50) - (- 1.0::real)\<bar> < 1 / 10 ^ 14"
proof (intro conjI impI)
  assume a: "rs \<noteq> [] \<and> length ds = length rs"
  have eq: "create_currency_chart ds rs =
     Inr \<lparr>percent_change = map (\<lambda>rate. np_scale (np_div (rate - rs ! 0) (rs ! 0)) 100) rs,
          min_rate = Min (set rs) * 0.998,
          max_rate = Max (set rs) * 1.002,
          overall_change = np_scale (np_div (last rs - rs ! 0) (rs ! 0)) 100,
          direction =
            (if np_positive (np_scale (np_div (last rs - rs ! 0) (rs ! 0)) 100) then Up else Down),
          days_shown = length rs\<rparr>"
    using a by (simp add: create_currency_chart_nonempty)
  show "\<exists>fig. create_currency_chart ds rs = Inr fig
         \<and> length (percent_change fig) = length rs
         \<and> (\<forall>i<length rs.
               percent_change fig ! i = np_scale (np_div (rs ! i - rs ! 0) (rs ! 0)) 100)
         \<and> overall_change fig = np_scale (np_div (last rs - rs ! 0) (rs ! 0)) 100
         \<and> (rs ! 0 \<noteq> 0 \<longrightarrow>
               (\<forall>i<length rs.
                  percent_change fig ! i = Finite ((rs ! i - rs ! 0) / rs ! 0 * 100))
             \<and> overall_change fig = Finite ((last rs - rs ! 0) / rs ! 0 * 100))"
    unfolding eq by (simp add: np_div_def)
next
  assume "rs \<noteq> []"
  then show "\<exists>pc. percent_change_f64 rs = Inr pc
         \<and> length pc = length rs
         \<and> (\<forall>i<length rs. pc ! i = f64_times100 (f64_div (fl (rs ! i - rs ! 0)) (rs ! 0)))
         \<and> overall_change_f64 rs =
             Inr (f64_times100 (f64_div (fl (last rs - rs ! 0)) (rs ! 0)))"
    by (simp add: percent_change_f64_nonempty)
next
  show "percent_change_f64 [round64 1.0, round64 1.1, round64 0.99] =
        Inr [Finite 0, Finite (10 + 5 / 2 ^ 49), Finite (- 1 - 1 / 2 ^ 50)]"
    by (rule example_percent_change)
next
  show "overall_change_f64 [round64 1.0, round64 1.1, round64 0.99] =
        Inr (Finite (- 1 - 1 / 2 ^ 50))"
    by (rule example_overall_change)
next
  show "direction_f64 [round64 1.0, round64 1.1, round64 0.99] = Inr Down"
    unfolding direction_f64_def example_overall_change by simp
next
  show "\<bar>(10 + 5 / 2 ^ 49) - (10.0::real)\<bar> < 1 / 10 ^ 14" by simp
next
  show "\<bar>(- 1 - 1 / 2 ^ 50) - (- 1.0::real)\<bar> < 1 / 10 ^ 14" by simp
qed

theorem percent_change_from_first_witness:
  "(\<exists>fig. create_currency_chart [''2026-11-01'', ''2026-11-02''] [2, 3] = Inr fig
      \<and> length (percent_change fig) = 2
      \<and> percent_change fig ! 1 = Finite 50
      \<and> overall_change fig = Finite 50)
   \<and> (\<exists>pc. percent_change_f64 [2, 3] = Inr pc \<and> length pc = 2 \<and> pc ! 1 = Finite 50)
   \<and> overall_change_f64 [2, 3] = Inr (Finite 50)"
proof -
  have pre: "[2, 3 :: real] \<noteq> []
      \<and> length [''2026-11-01'', ''2026-11-02''] = length [2, 3 :: real]"
    by simp
  note inst = percent_change_from_first
    [where rs = "[2, 3]" and ds = "[''2026-11-01'', ''2026-11-02'']"]
  from inst pre obtain fig where f:
    "create_currency_chart [''2026-11-01'', ''2026-11-02''] [2, 3] = Inr fig"
    "length (percent_change fig) = length [2, 3 :: real]"
    "[2, 3 :: real] ! 0 \<noteq> 0 \<longrightarrow>
       (\<forall>i<length [2, 3 :: real].
          percent_change fig ! i = Finite (([2, 3] ! i - [2, 3] ! 0) / [2, 3] ! 0 * 100))
       \<and> overall_change fig = Finite ((last [2, 3] - [2, 3] ! 0) / [2, 3] ! 0 * 100)"
    by blast
  from f(3) have "percent_change fig ! 1 = Finite 50" "overall_change fig = Finite 50"
    by simp_all
  with f(1,2) have real_part:
    "\<exists>fig. create_currency_chart [''2026-11-01'', ''2026-11-02''] [2, 3] = Inr fig
      \<and> length (percent_change fig) = 2
      \<and> percent_change fig ! 1 = Finite 50
      \<and> overall_change fig = Finite 50"
    by simp
  from inst pre obtain pc where p:
    "percent_change_f64 [2, 3] = Inr pc" "length pc = length [2, 3 :: real]"
    "\<forall>i<length [2, 3 :: real].
       pc ! i = f64_times100 (f64_div (fl ([2, 3] ! i - [2, 3] ! 0)) ([2, 3] ! 0))"
    "overall_change_f64 [2, 3] =
       Inr (f64_times100 (f64_div (fl (last [2, 3] - [2, 3] ! 0)) ([2, 3] ! 0)))"
    by blast
  have e1: "fl 1 = Finite 1"
    by (rule fl_normal [where e = 0])
      (simp_all add: round_even_def power_int_minus f64_overflow_def)
  have e2: "fl (1 / 2) = Finite (1 / 2)"
    by (rule fl_normal [where e = "- 1"])
      (simp_all add: round_even_def power_int_minus f64_overflow_def)
  have e3: "fl 50 = Finite 50"
    by (rule fl_normal [where e = 5])
      (simp_all add: round_even_def power_int_minus f64_overflow_def)
  from p(3) [rule_format, of 1] have "pc ! 1 = Finite 50"
    by (simp add: e1 e2 e3)
  moreover from p(4) have "overall_change_f64 [2, 3] = Inr (Finite 50)"
    by (simp add: e1 e2 e3)
  ultimately show ?thesis
    using real_part p(1,2) by simp
qed

text \<open>
  C6. For a non-empty series the overall change is
  \<open>(rate[last] - rate[0]) / rate[0] * 100\<close>, and the direction is up exactly when it is
  greater than zero and down otherwise; an overall change of exactly zero is down.
\<close>

theorem direction_strict:
  "rs \<noteq> [] \<and> length ds = length rs \<longrightarrow>
      (\<exists>fig. create_currency_chart ds rs = Inr fig
         \<and> overall_change fig = np_scale (np_div (last rs - rs ! 0) (rs ! 0)) 100
         \<and> (direction fig = Up \<longleftrightarrow> np_positive (overall_change fig))
         \<and> (direction fig = Down \<longleftrightarrow> \<not> np_positive (overall_change fig))
         \<and> (rs ! 0 \<noteq> 0 \<longrightarrow>
               overall_change fig = Finite ((last rs - rs ! 0) / rs ! 0 * 100)
             \<and> (direction fig = Up \<longleftrightarrow> 0 < (last rs - rs ! 0) / rs ! 0 * 100)
             \<and> (direction fig = Down \<longleftrightarrow> (last rs - rs ! 0) / rs ! 0 * 100 \<le> 0)
             \<and> ((last rs - rs ! 0) / rs ! 0 * 100 = 0 \<longrightarrow> direction fig = Down)))"
proof
  assume a: "rs \<noteq> [] \<and> length ds = length rs"
  then have eq: "create_currency_chart ds rs =
     Inr \<lparr>percent_change = map (\<lambda>rate. np_scale (np_div (rate - rs ! 0) (rs ! 0)) 100) rs,
          min_rate = Min (set rs) * 0.998,
          max_rate = Max (set rs) * 1.002,
          overall_change = np_scale (np_div (last rs - rs ! 0) (rs ! 0)) 100,
          direction =
            (if np_positive (np_scale (np_div (last rs - rs ! 0) (rs ! 0)) 100) then Up else Down),
          days_shown = length rs\<rparr>"
    by (simp add: create_currency_chart_nonempty)
  show "\<exists>fig. create_currency_chart ds rs = Inr fig
         \<and> overall_change fig = np_scale (np_div (last rs - rs ! 0) (rs ! 0)) 100
         \<and> (direction fig = Up \<longleftrightarrow> np_positive (overall_change fig))
         \<and> (direction fig = Down \<longleftrightarrow> \<not> np_positive (overall_change fig))
         \<and> (rs ! 0 \<noteq> 0 \<longrightarrow>
               overall_change fig = Finite ((last rs - rs ! 0) / rs ! 0 * 100)
             \<and> (direction fig = Up \<longleftrightarrow> 0 < (last rs - rs ! 0) / rs ! 0 * 100)
             \<and> (direction fig = Down \<longleftrightarrow> (last rs - rs ! 0) / rs ! 0 * 100 \<le> 0)
             \<and> ((last rs - rs ! 0) / rs ! 0 * 100 = 0 \<longrightarrow> direction fig = Down))"
    unfolding eq by (auto simp add: np_div_def)
qed

theorem direction_strict_witness:
  "(\<exists>fig. create_currency_chart [''2026-11-01'', ''2026-11-02''] [1, 2] = Inr fig
      \<and> overall_change fig = Finite 100 \<and> direction fig = Up)
   \<and> (\<exists>fig. create_currency_chart [''2026-11-01'', ''2026-11-02'', ''2026-11-03''] [2, 3, 2]
               = Inr fig
      \<and> overall_change fig = Finite 0 \<and> direction fig = Down)
   \<and> (\<exists>fig. create_currency_chart [''2026-11-01'', ''2026-11-02''] [2, 1] = Inr fig
      \<and> overall_change fig = Finite (- 50) \<and> direction fig = Down)"
proof (intro conjI)
  from direction_strict [where rs = "[1, 2]" and ds = "[''2026-11-01'', ''2026-11-02'']"]
  obtain fig where f: "create_currency_chart [''2026-11-01'', ''2026-11-02''] [1, 2] = Inr fig"
    "[1, 2 :: real] ! 0 \<noteq> 0 \<longrightarrow>
       overall_change fig = Finite ((last [1, 2] - [1, 2] ! 0) / [1, 2] ! 0 * 100)
     \<and> (direction fig = Up \<longleftrightarrow> 0 < (last [1, 2 :: real] - [1, 2] ! 0) / [1, 2] ! 0 * 100)"
    by auto
  from f(2) have "overall_change fig = Finite 100" "direction fig = Up" by simp_all
  with f(1) show "\<exists>fig. create_currency_chart [''2026-11-01'', ''2026-11-02''] [1, 2] = Inr fig
      \<and> overall_change fig = Finite 100 \<and> direction fig = Up"
    by simp
next
  from direction_strict
    [where rs = "[2, 3, 2]" and ds = "[''2026-11-01'', ''2026-11-02'', ''2026-11-03'']"]
  obtain fig where f:
    "create_currency_chart [''2026-11-01'', ''2026-11-02'', ''2026-11-03''] [2, 3, 2] = Inr fig"
    "[2, 3, 2 :: real] ! 0 \<noteq> 0 \<longrightarrow>
       overall_change fig = Finite ((last [2, 3, 2] - [2, 3, 2] ! 0) / [2, 3, 2] ! 0 * 100)
     \<and> (direction fig = Down
          \<longleftrightarrow> (last [2, 3, 2 :: real] - [2, 3, 2] ! 0) / [2, 3, 2] ! 0 * 100 \<le> 0)"
    by auto
  from f(2) have "overall_change fig = Finite 0" "direction fig = Down" by simp_all
  with f(1) show "\<exists>fig. create_currency_chart
        [''2026-11-01'', ''2026-11-02'', ''2026-11-03''] [2, 3, 2] = Inr fig
      \<and> overall_change fig = Finite 0 \<and> direction fig = Down"
    by simp
next
  from direction_strict [where rs = "[2, 1]" and ds = "[''2026-11-01'', ''2026-11-02'']"]
  obtain fig where f: "create_currency_chart [''2026-11-01'', ''2026-11-02''] [2, 1] = Inr fig"
    "[2, 1 :: real] ! 0 \<noteq> 0 \<longrightarrow>
       overall_change fig = Finite ((last [2, 1] - [2, 1] ! 0) / [2, 1] ! 0 * 100)
     \<and> (direction fig = Down \<longleftrightarrow> (last [2, 1 :: real] - [2, 1] ! 0) / [2, 1] ! 0 * 100 \<le> 0)"
    by auto
  from f(2) have "overall_change fig = Finite (- 50)" "direction fig = Down" by simp_all
  with f(1) show "\<exists>fig. create_currency_chart [''2026-11-01'', ''2026-11-02''] [2, 1] = Inr fig
      \<and> overall_change fig = Finite (- 50) \<and> direction fig = Down"
    by simp
qed

text \<open>
  C7. A series of one point does not fail: the range is
  \<open>(rate * 0.998, rate * 1.002)\<close>, and for a rate other than zero the percent change
  is \<open>[0]\<close> and the overall change is \<open>0\<close>. On the rate \<open>2.5\<close> the range is
  \<open>(2.4950, 2.5050)\<close>.
\<close>

theorem single_point_series:
  "(\<exists>fig. create_currency_chart [d] [rate] = Inr fig
       \<and> (min_rate fig, max_rate fig) = (rate * 0.998, rate * 1.002)
       \<and> (rate \<noteq> 0 \<longrightarrow> percent_change fig = [Finite 0] \<and> overall_change fig = Finite 0))
   \<and> (\<exists>fig. create_currency_chart [d0] [2.5] = Inr fig
       \<and> percent_change fig = [Finite 0]
       \<and> overall_change fig = Finite 0
       \<and> (min_rate fig, max_rate fig) = (2.4950, 2.5050))"
  by (simp add: create_currency_chart_def np_div_def Let_def)

theorem single_point_series_witness:
  "\<exists>fig. create_currency_chart [''2026-11-03''] [4] = Inr fig
      \<and> (min_rate fig, max_rate fig) = (3.992, 4.008)
      \<and> percent_change fig = [Finite 0] \<and> overall_change fig = Finite 0"
  using single_point_series [where d = "''2026-11-03''" and rate = 4 and ?d0.0 = "''2026-11-03''"]
  by simp

section \<open>The fetchers\<close>

lemma lower_USD: "lower ''USD'' = ''usd''"
  by (simp add: lower_def lower_char_def)

lemma lower_EUR: "lower ''EUR'' = ''eur''"
  by (simp add: lower_def lower_char_def)

lemma extract_usd_eur:
  "extract_rate \<lparr>status_code = c, body = Some (usd_eur_body x)\<rparr> ''USD'' ''EUR'' = Inr (JNum x)"
  by (simp add: extract_rate_def response_json_def usd_eur_body_def lower_USD lower_EUR)

lemma november_days:
  "november 1 = ''2026-11-01''" "november 2 = ''2026-11-02''" "november 3 = ''2026-11-03''"
  by (simp_all add: november_def)

lemma range_down_3: "range_down 3 = [3, 2, 1]"
  by (simp add: range_down_def upto.simps)

text \<open>A call of \<open>get_exchange_rate\<close> issues one request or two, never more.\<close>

lemma get_exchange_rate_requests:
  "snd (get_exchange_rate net f t issued) = issued @ [primary_url f]
   \<or> snd (get_exchange_rate net f t issued) = issued @ [primary_url f, fallback_url f]"
  by (auto simp add: get_exchange_rate_def get_exchange_rate_try_def requests_get_def
      split: http_result.splits sum.splits prod.splits if_splits)

text \<open>
  C2. The claim holds for the historical fetch and fails for \<open>get_exchange_rate\<close>:
  after a primary answer other than 200, a fallback answer with a status other than
  200 and a well-formed body is not treated as a failure, its rate is returned. On the
  same source the loop of \<open>get_historical_rates\<close>, which tests the status after the
  fallback, skips the day. Both issue two requests.
\<close>

theorem get_exchange_rate_fallback_status_unchecked:
  "get_exchange_rate stale_mirror ''USD'' ''EUR'' [] =
     (JNum 0.9, [primary_url ''USD'', fallback_url ''USD''])
   \<and> rates (get_historical_rates stale_mirror november fourth ''USD'' ''EUR'' 1) = []
   \<and> requests (get_historical_rates stale_mirror november fourth ''USD'' ''EUR'' 1) =
       [historical_url ''2026-11-03'' ''USD'', historical_fallback_url ''2026-11-03'' ''USD'']"
  by (simp add: get_exchange_rate_def get_exchange_rate_try_def requests_get_def
      stale_mirror_def extract_usd_eur get_historical_rates_def range_down_def
      historical_day_def historical_try_def fourth_def november_days)

text \<open>
  C5. When the primary request is answered with status 200 and a body holding a value
  for the pair, \<open>get_exchange_rate\<close> returns that value unchanged (present, when the
  value is not \<open>null\<close>) after the one request, and the historical fetch appends that
  value and the date unchanged.
\<close>

theorem primary_success_pass_through:
  "(net (length issued) (primary_url f) = Responded r \<and> status_code r = 200
      \<and> body r = Some data \<and> subscript data (lower f) = Inr inner
      \<and> subscript inner (lower t) = Inr v \<and> v \<noteq> JNull
    \<longrightarrow> get_exchange_rate net f t issued = (v, issued @ [primary_url f])
        \<and> fst (get_exchange_rate net f t issued) \<noteq> JNull)
   \<and> (net (length (requests s)) (historical_url date f) = Responded r \<and> status_code r = 200
      \<and> body r = Some data \<and> subscript data (lower f) = Inr inner
      \<and> subscript inner (lower t) = Inr v
    \<longrightarrow> historical_try net date f t s =
          (None, s\<lparr>rates := rates s @ [v], dates := dates s @ [date],
                   requests := requests s @ [historical_url date f]\<rparr>))"
  by (simp add: get_exchange_rate_def get_exchange_rate_try_def requests_get_def
      extract_rate_def response_json_def historical_try_def)

theorem primary_success_pass_through_witness:
  "get_exchange_rate (steady_source 0.9) ''USD'' ''EUR'' [] = (JNum 0.9, [primary_url ''USD''])
   \<and> historical_try (steady_source 0.9) ''2026-11-03'' ''USD'' ''EUR''
        \<lparr>rates = [], dates = [], requests = []\<rparr> =
       (None, \<lparr>rates = [JNum 0.9], dates = [''2026-11-03''],
               requests = [historical_url ''2026-11-03'' ''USD'']\<rparr>)"
  using primary_success_pass_through [where net = "steady_source 0.9" and issued = "[]"
      and f = "''USD''" and t = "''EUR''"
      and r = "\<lparr>status_code = 200, body = Some (usd_eur_body 0.9)\<rparr>"
      and data = "usd_eur_body 0.9" and inner = "JObj [(''eur'', JNum 0.9)]"
      and v = "JNum 0.9" and s = "\<lparr>rates = [], dates = [], requests = []\<rparr>"
      and date = "''2026-11-03''"]
  by (simp add: steady_source_def usd_eur_body_def lower_USD lower_EUR)

section \<open>The loop of \<open>get_historical_rates\<close>\<close>

lemma day_requests_primary: "day_requests f date [historical_url date f]"
  by (simp add: day_requests_def)

lemma day_requests_both:
  "day_requests f date [historical_url date f, historical_fallback_url date f]"
  by (simp add: day_requests_def)

lemma historical_try_cases:
  assumes "historical_try net date f t s = (e, s')"
  shows "(\<exists>rq. day_requests f date rq \<and> requests s' = requests s @ rq)
       \<and> ((rates s' = rates s \<and> dates s' = dates s)
          \<or> (\<exists>rate. fetched net f t date rate
                \<and> rates s' = rates s @ [rate] \<and> dates s' = dates s @ [date]))"
proof -
  let ?u = "historical_url date f" and ?fb = "historical_fallback_url date f"
  let ?n = "length (requests s)"
  have skip1: ?thesis if "s' = s\<lparr>requests := requests s @ [?u]\<rparr>"
    unfolding that using day_requests_primary [of f date] by auto
  have skip2: ?thesis if "s' = s\<lparr>requests := requests s @ [?u, ?fb]\<rparr>"
    unfolding that using day_requests_both [of f date] by auto
  have app1: ?thesis
    if "s' = s\<lparr>rates := rates s @ [rate], dates := dates s @ [date],
                  requests := requests s @ [?u]\<rparr>"
      and "fetched net f t date rate" for rate
    unfolding that(1) using day_requests_primary [of f date] that(2) by auto
  have app2: ?thesis
    if "s' = s\<lparr>rates := rates s @ [rate], dates := dates s @ [date],
                  requests := requests s @ [?u, ?fb]\<rparr>"
      and "fetched net f t date rate" for rate
    unfolding that(1) using day_requests_both [of f date] that(2) by auto
  show ?thesis
  proof (cases "net ?n ?u")
    case ConnectionFailed
    with assms have "s' = s\<lparr>requests := requests s @ [?u]\<rparr>"
      by (simp add: historical_try_def requests_get_def)
    then show ?thesis by (rule skip1)
  next
    case (Responded r1)
    show ?thesis
    proof (cases "status_code r1 = 200")
      case True
      show ?thesis
      proof (cases "extract_rate r1 f t")
        case (Inl err)
        with assms Responded True have "s' = s\<lparr>requests := requests s @ [?u]\<rparr>"
          by (simp add: historical_try_def requests_get_def)
        then show ?thesis by (rule skip1)
      next
        case (Inr rate)
        with Responded True have "fetched net f t date rate"
          unfolding fetched_def by blast
        moreover from assms Responded True Inr
        have "s' = s\<lparr>rates := rates s @ [rate], dates := dates s @ [date],
                  requests := requests s @ [?u]\<rparr>"
          by (simp add: historical_try_def requests_get_def)
        ultimately show ?thesis using app1 by blast
      qed
    next
      case False
      show ?thesis
      proof (cases "net (Suc ?n) ?fb")
        case ConnectionFailed
        with assms Responded False have "s' = s\<lparr>requests := requests s @ [?u, ?fb]\<rparr>"
          by (simp add: historical_try_def requests_get_def)
        then show ?thesis by (rule skip2)
      next
        case fb: (Responded r2)
        show ?thesis
        proof (cases "status_code r2 = 200")
          case r2ok: True
          show ?thesis
          proof (cases "extract_rate r2 f t")
            case (Inl err)
            with assms Responded False fb r2ok
            have "s' = s\<lparr>requests := requests s @ [?u, ?fb]\<rparr>"
              by (simp add: historical_try_def requests_get_def)
            then show ?thesis by (rule skip2)
          next
            case (Inr rate)
            with fb r2ok have "fetched net f t date rate"
              unfolding fetched_def by blast
            moreover from assms Responded False fb r2ok Inr
            have "s' = s\<lparr>rates := rates s @ [rate], dates := dates s @ [date],
                  requests := requests s @ [?u, ?fb]\<rparr>"
              by (simp add: historical_try_def requests_get_def)
            ultimately show ?thesis using app2 by blast
          qed
        next
          case r2bad: False
          with assms Responded False fb
          have "s' = s\<lparr>requests := requests s @ [?u, ?fb]\<rparr>"
            by (simp add: historical_try_def requests_get_def)
          then show ?thesis by (rule skip2)
        qed
      qed
    qed
  qed
qed

lemma historical_day_cases:
  "(\<exists>rq. day_requests f (strftime (now i - i)) rq
        \<and> requests (historical_day net strftime now f t i s) = requests s @ rq)
   \<and> ((rates (historical_day net strftime now f t i s) = rates s
        \<and> dates (historical_day net strftime now f t i s) = dates s)
      \<or> (\<exists>rate. fetched net f t (strftime (now i - i)) rate
            \<and> rates (historical_day net strftime now f t i s) = rates s @ [rate]
            \<and> dates (historical_day net strftime now f t i s) = dates s @ [strftime (now i - i)]))"
  unfolding historical_day_def
  using historical_try_cases [of net "strftime (now i - i)" f t s
      "fst (historical_try net (strftime (now i - i)) f t s)"
      "snd (historical_try net (strftime (now i - i)) f t s)"]
  by simp

lemma historical_loop:
  "\<exists>ds rs rqs.
      dates (fold (historical_day net strftime now f t) js s) = dates s @ map strftime ds
    \<and> rates (fold (historical_day net strftime now f t) js s) = rates s @ rs
    \<and> requests (fold (historical_day net strftime now f t) js s) = requests s @ concat rqs
    \<and> subseq ds (map (\<lambda>i. now i - i) js)
    \<and> list_all2 (\<lambda>d. fetched net f t (strftime d)) ds rs
    \<and> list_all2 (\<lambda>i. day_requests f (strftime (now i - i))) js rqs"
proof (induction js arbitrary: s)
  case Nil
  show ?case by simp
next
  case (Cons i js)
  let ?s1 = "historical_day net strftime now f t i s"
  from Cons.IH [of ?s1] obtain ds rs rqs where ih:
    "dates (fold (historical_day net strftime now f t) js ?s1) = dates ?s1 @ map strftime ds"
    "rates (fold (historical_day net strftime now f t) js ?s1) = rates ?s1 @ rs"
    "requests (fold (historical_day net strftime now f t) js ?s1) = requests ?s1 @ concat rqs"
    "subseq ds (map (\<lambda>i. now i - i) js)"
    "list_all2 (\<lambda>d. fetched net f t (strftime d)) ds rs"
    "list_all2 (\<lambda>i. day_requests f (strftime (now i - i))) js rqs"
    by blast
  from historical_day_cases [of f strftime now i net t s] obtain rq where rq:
    "day_requests f (strftime (now i - i)) rq" "requests ?s1 = requests s @ rq"
    by blast
  have rqs: "requests (fold (historical_day net strftime now f t) (i # js) s)
      = requests s @ concat (rq # rqs)"
    "list_all2 (\<lambda>i. day_requests f (strftime (now i - i))) (i # js) (rq # rqs)"
    using ih(3,6) rq by simp_all
  from historical_day_cases [of f strftime now i net t s]
  consider (skip) "rates ?s1 = rates s" "dates ?s1 = dates s"
    | (append) rate where "fetched net f t (strftime (now i - i)) rate"
        "rates ?s1 = rates s @ [rate]" "dates ?s1 = dates s @ [strftime (now i - i)]"
    by blast
  then show ?case
  proof cases
    case skip
    have "dates (fold (historical_day net strftime now f t) (i # js) s) = dates s @ map strftime ds"
      "rates (fold (historical_day net strftime now f t) (i # js) s) = rates s @ rs"
      using ih(1,2) skip by simp_all
    moreover have "subseq ds (map (\<lambda>i. now i - i) (i # js))"
      using ih(4) by (simp add: list_emb_Cons)
    moreover note ih(5) rqs
    ultimately show ?thesis by blast
  next
    case append
    have "dates (fold (historical_day net strftime now f t) (i # js) s)
        = dates s @ map strftime ((now i - i) # ds)"
      "rates (fold (historical_day net strftime now f t) (i # js) s) = rates s @ (rate # rs)"
      "subseq ((now i - i) # ds) (map (\<lambda>i. now i - i) (i # js))"
      "list_all2 (\<lambda>d. fetched net f t (strftime d)) ((now i - i) # ds) (rate # rs)"
      using ih(1,2,4,5) append by simp_all
    with rqs show ?thesis by blast
  qed
qed




lemma get_historical_rates_shape:
  "\<exists>ds rs rqs.
      dates (get_historical_rates net strftime now f t N) = map strftime ds
    \<and> rates (get_historical_rates net strftime now f t N) = rs
    \<and> requests (get_historical_rates net strftime now f t N) = concat rqs
    \<and> subseq ds (map (\<lambda>i. now i - i) (range_down N))
    \<and> list_all2 (\<lambda>d. fetched net f t (strftime d)) ds rs
    \<and> list_all2 (\<lambda>i. day_requests f (strftime (now i - i))) (range_down N) rqs"
  using historical_loop [of net strftime now f t "range_down N"
      "\<lparr>rates = [], dates = [], requests = []\<rparr>"]
  by (simp add: get_historical_rates_def)


lemma gappy_run:
  "get_historical_rates gappy_source november (\<lambda>i. 4) ''USD'' ''EUR'' 3 =
     \<lparr>rates = [JNum 0.9, JNum 0.9],
      dates = [''2026-11-01'', ''2026-11-03''],
      requests = [historical_url ''2026-11-01'' ''USD'',
                  historical_url ''2026-11-02'' ''USD'',
                  historical_fallback_url ''2026-11-02'' ''USD'',
                  historical_url ''2026-11-03'' ''USD'']\<rparr>"
  by (simp add: get_historical_rates_def range_down_3 historical_day_def historical_try_def
      requests_get_def gappy_source_def extract_usd_eur november_days)


subsection \<open>The call against the specification's series builder\<close>













text \<open>
  C10. Whatever the source answers and whatever the clock reads, the two lists
  returned have the same length, and the rate at each index was fetched for the date at
  that index.
\<close>

theorem dates_rates_aligned:
  "length (dates (get_historical_rates net strftime now f t N))
     = length (rates (get_historical_rates net strftime now f t N))
   \<and> (\<forall>i<length (dates (get_historical_rates net strftime now f t N)).
         fetched net f t
           (dates (get_historical_rates net strftime now f t N) ! i)
           (rates (get_historical_rates net strftime now f t N) ! i))"
proof -
  let ?S = "get_historical_rates net strftime now f t N"
  from get_historical_rates_shape [of net strftime now f t N]
  obtain ds rs where sh: "dates ?S = map strftime ds" "rates ?S = rs"
    "list_all2 (\<lambda>d. fetched net f t (strftime d)) ds rs"
    by blast
  have "list_all2 (fetched net f t) (dates ?S) (rates ?S)"
    using sh(3) by (simp add: sh(1,2) list_all2_map1)
  then show ?thesis
    by (simp add: list_all2_conv_all_nth)
qed

theorem dates_rates_aligned_witness:
  "fetched gappy_source ''USD'' ''EUR'' ''2026-11-03'' (JNum 0.9)"
proof -
  let ?S = "get_historical_rates gappy_source november (\<lambda>i. 4) ''USD'' ''EUR'' 3"
  from dates_rates_aligned [of gappy_source november "\<lambda>i. 4" "''USD''" "''EUR''" 3]
  have "\<forall>i<length (dates ?S). fetched gappy_source ''USD'' ''EUR'' (dates ?S ! i) (rates ?S ! i)"
    by blast
  from this [rule_format, of 1] show ?thesis
    by (simp add: gappy_run)
qed

section \<open>The sign of a rate\<close>





section \<open>The URLs\<close>

lemma host_split:
  assumes "CHR ''/'' \<notin> set h"
  shows "url_host (''https://'' @ h @ CHR ''/'' # p) = h"
    and "url_path (''https://'' @ h @ CHR ''/'' # p) = CHR ''/'' # p"
  using assms by (simp_all add: url_host_def url_path_def takeWhile_append dropWhile_append)

lemma latest_urls:
  "primary_url f = ''https://'' @ ''cdn.jsdelivr.net'' @ CHR ''/''
      # (''npm/@fawazahmed0/currency-api@latest/v1/currencies/'' @ lower f @ ''.json'')"
  "fallback_url f = ''https://'' @ ''latest.currency-api.pages.dev'' @ CHR ''/''
      # (''v1/currencies/'' @ lower f @ ''.json'')"
  by (simp_all add: primary_url_def fallback_url_def)

lemma historical_urls:
  "historical_url date f = ''https://'' @ ''cdn.jsdelivr.net'' @ CHR ''/''
      # (''npm/@fawazahmed0/currency-api@'' @ date @ ''/v1/currencies/'' @ lower f @ ''.json'')"
  "historical_fallback_url date f = ''https://'' @ (date @ ''.currency-api.pages.dev'') @ CHR ''/''
      # (''v1/currencies/'' @ lower f @ ''.json'')"
  by (simp_all add: historical_url_def historical_fallback_url_def)

lemma latest_parts:
  "url_host (primary_url f) = ''cdn.jsdelivr.net''"
  "url_path (primary_url f) =
     ''/npm/@fawazahmed0/currency-api@latest/v1/currencies/'' @ lower f @ ''.json''"
  "url_host (fallback_url f) = ''latest.currency-api.pages.dev''"
  "url_path (fallback_url f) = ''/v1/currencies/'' @ lower f @ ''.json''"
  unfolding latest_urls by (subst host_split; simp)+

lemma historical_parts:
  "url_host (historical_url date f) = ''cdn.jsdelivr.net''"
  "url_path (historical_url date f) =
     ''/npm/@fawazahmed0/currency-api@'' @ date @ ''/v1/currencies/'' @ lower f @ ''.json''"
  "CHR ''/'' \<notin> set date \<Longrightarrow>
     url_host (historical_fallback_url date f) = date @ ''.currency-api.pages.dev''"
  "CHR ''/'' \<notin> set date \<Longrightarrow>
     url_path (historical_fallback_url date f) = ''/v1/currencies/'' @ lower f @ ''.json''"
  unfolding historical_urls by (subst host_split; simp)+

text \<open>
  The claim C9 fails: the fallback URL differs from the primary in its path as well.
\<close>

theorem fallback_path_counterexample:
  "url_path (fallback_url ''USD'') \<noteq> url_path (primary_url ''USD'')
   \<and> url_path (historical_fallback_url ''2026-11-03'' ''USD'')
       \<noteq> url_path (historical_url ''2026-11-03'' ''USD'')"
  by (simp add: latest_parts historical_parts)

text \<open>
  C9, amended. The primary and the fallback URL share the scheme and the trailing path
  \<open>/v1/currencies/\<close>, the lower-cased base and \<open>.json\<close>. They differ in the
  host and in where the version or date stands: the primary, on \<open>cdn.jsdelivr.net\<close>,
  has it in the path prefix \<open>/npm/@fawazahmed0/currency-api@\<close> followed by the tag, the
  fallback has the tag as the subdomain in front of \<open>.currency-api.pages.dev\<close>.
\<close>

theorem fallback_url_structure:
  "url_host (primary_url f) = ''cdn.jsdelivr.net''
   \<and> url_host (fallback_url f) = ''latest.currency-api.pages.dev''
   \<and> url_path (fallback_url f) = ''/v1/currencies/'' @ lower f @ ''.json''
   \<and> url_path (primary_url f) = ''/npm/@fawazahmed0/currency-api@latest'' @ url_path (fallback_url f)
   \<and> url_host (historical_url date f) = ''cdn.jsdelivr.net''
   \<and> (CHR ''/'' \<notin> set date \<longrightarrow>
         url_host (historical_fallback_url date f) = date @ ''.currency-api.pages.dev''
       \<and> url_path (historical_fallback_url date f) = ''/v1/currencies/'' @ lower f @ ''.json''
       \<and> url_path (historical_url date f) =
           ''/npm/@fawazahmed0/currency-api@'' @ date @ url_path (historical_fallback_url date f))"
  by (simp add: latest_parts historical_parts)

theorem fallback_url_structure_witness:
  "url_host (historical_fallback_url ''2026-11-03'' ''USD'') = ''2026-11-03.currency-api.pages.dev''
   \<and> url_path (historical_fallback_url ''2026-11-03'' ''USD'') = ''/v1/currencies/usd.json''
   \<and> url_path (historical_url ''2026-11-03'' ''USD'') =
       ''/npm/@fawazahmed0/currency-api@2026-11-03/v1/currencies/usd.json''
   \<and> url_path (primary_url ''USD'') = ''/npm/@fawazahmed0/currency-api@latest/v1/currencies/usd.json''"
  using fallback_url_structure [of "''USD''" "''2026-11-03''"]
  by (simp add: lower_def lower_char_def)

end
